theory Spec2Isabelle
  imports Main "HOL-Library.Word"
begin

unbundle bit_operations_syntax

section \<open>Data model\<close>

text \<open>
  The tools of \<^verbatim>\<open>openusd_mcp/tools.py\<close> work on a USD stage opened from a file path.
  The stage itself is an object of the \<^verbatim>\<open>pxr\<close> library; here it is the data the tools
  read from it: a tree of prims below a pseudo-root, each prim with the values the
  tools query.  A 32-bit float is its IEEE bit pattern, a byte is an 8-bit word.
\<close>

type_synonym byte = "8 word"
type_synonym f32 = "32 word"
type_synonym vec3f = "f32 \<times> f32 \<times> f32"
type_synonym tri = "int \<times> int \<times> int"

datatype exn = FileNotFoundError | ValueError | IndexError | StructError | OSError

text \<open>What a tool returns when it does not raise: \<^verbatim>\<open>{"error": msg}\<close> or its own dict.\<close>

datatype 'a reply = ErrorPayload string | Success 'a

datatype schema = Xformable | Gprim | Mesh | Material | Shader

record variant_set =
  vs_names :: "string list"
  vs_selection :: string

record shader_source =
  src_path :: string
  src_inputs :: "(string \<times> string option) list"

record prim_data =
  prim_path :: string
  type_name :: string
  schemas :: "schema list"
  points_attr :: "vec3f list option"
  face_vertex_counts_attr :: "int list option"
  face_vertex_indices_attr :: "int list option"
  surface_sources :: "shader_source list"
  local_transformation :: string
  local_to_world :: string
  variant_sets :: "(string \<times> variant_set) list"

datatype prim = Prim (data: prim_data) (children: "prim list")

record stage =
  pseudo_root :: prim
  up_axis :: string
  meters_per_unit :: "64 word"

datatype stored_file = UsdFile stage | BinaryFile "byte list" | TextFile string

record storage =
  files :: "string \<rightharpoonup> stored_file"
  unwritable :: "string \<Rightarrow> bool"

text \<open>
  The vector arithmetic of \<^verbatim>\<open>pxr.Gf\<close> and Python's formatting of a float are not code
  of this repository: they are parameters of the model.
\<close>

record gf_ops =
  vsub :: "vec3f \<Rightarrow> vec3f \<Rightarrow> vec3f"
  vcross :: "vec3f \<Rightarrow> vec3f \<Rightarrow> vec3f"
  length_positive :: "vec3f \<Rightarrow> bool"
  get_normalized :: "vec3f \<Rightarrow> vec3f"
  str_float :: "f32 \<Rightarrow> string"

section \<open>Python and USD primitives\<close>

definition bind_exn :: "exn + 'a \<Rightarrow> ('a \<Rightarrow> exn + 'b) \<Rightarrow> exn + 'b" where
  "bind_exn r f = (case r of Inl e \<Rightarrow> Inl e | Inr x \<Rightarrow> f x)"

fun mapM_exn :: "('a \<Rightarrow> exn + 'b) \<Rightarrow> 'a list \<Rightarrow> exn + 'b list" where
  "mapM_exn f [] = Inr []"
| "mapM_exn f (x # xs) =
     bind_exn (f x) (\<lambda>y. bind_exn (mapM_exn f xs) (\<lambda>ys. Inr (y # ys)))"

text \<open>Indexing of a Vt array from Python: a negative index counts from the end.\<close>

definition vt_index :: "'a list \<Rightarrow> int \<Rightarrow> exn + 'a" where
  "vt_index xs i =
     (if 0 \<le> i \<and> i < int (length xs) then Inr (xs ! nat i)
      else if i < 0 \<and> 0 \<le> i + int (length xs) then Inr (xs ! nat (i + int (length xs)))
      else Inl IndexError)"

text \<open>\<^verbatim>\<open>not x\<close> for the value of an array attribute: None and the empty array are falsy.\<close>

definition falsy :: "'a list option \<Rightarrow> bool" where
  "falsy v = (case v of None \<Rightarrow> True | Some xs \<Rightarrow> xs = [])"

fun preorder :: "prim \<Rightarrow> prim list" where
  "preorder (Prim d cs) = Prim d cs # concat (map preorder cs)"

text \<open>\<^verbatim>\<open>stage.Traverse()\<close>: depth first below the pseudo-root, which is not visited.\<close>

definition Traverse :: "stage \<Rightarrow> prim list" where
  "Traverse st = concat (map preorder (children (pseudo_root st)))"

text \<open>\<^verbatim>\<open>stage.GetPrimAtPath(p)\<close>; None stands for a prim that is not valid.\<close>

definition GetPrimAtPath :: "stage \<Rightarrow> string \<Rightarrow> prim option" where
  "GetPrimAtPath st p = find (\<lambda>q. prim_path (data q) = p) (preorder (pseudo_root st))"

definition IsA :: "prim \<Rightarrow> schema \<Rightarrow> bool" where
  "IsA p s = (s \<in> set (schemas (data p)))"

text \<open>
  \<^verbatim>\<open>_open_stage\<close>: \<^verbatim>\<open>FileNotFoundError\<close> when nothing exists at the path, \<^verbatim>\<open>ValueError\<close> when
  what is there does not open as a stage.  The stage is a copy in memory of the document.
\<close>

definition open_stage :: "storage \<Rightarrow> string \<Rightarrow> exn + stage" where
  "open_stage fs path =
     (case files fs path of
        None \<Rightarrow> Inl FileNotFoundError
      | Some (UsdFile st) \<Rightarrow> Inr st
      | Some _ \<Rightarrow> Inl ValueError)"

section \<open>Mesh export\<close>

subsection \<open>Fan triangulation\<close>

text \<open>\<^verbatim>\<open>range(1, count - 1)\<close>\<close>

definition fan_range :: "int \<Rightarrow> int list" where
  "fan_range count = map int [1..<nat (count - 1)]"

definition fan_triangle :: "int list \<Rightarrow> int \<Rightarrow> int \<Rightarrow> exn + tri" where
  "fan_triangle fvi idx i =
     bind_exn (vt_index fvi idx) (\<lambda>v0.
     bind_exn (vt_index fvi (idx + i)) (\<lambda>v1.
     bind_exn (vt_index fvi (idx + i + 1)) (\<lambda>v2. Inr (v0, v1, v2))))"

fun triangulate :: "int list \<Rightarrow> int list \<Rightarrow> int \<Rightarrow> exn + tri list" where
  "triangulate fvi [] idx = Inr []"
| "triangulate fvi (count # counts) idx =
     bind_exn (mapM_exn (fan_triangle fvi idx) (fan_range count)) (\<lambda>ts.
     bind_exn (triangulate fvi counts (idx + count)) (\<lambda>rest. Inr (ts @ rest)))"

text \<open>The fan of one face, as the specification lists it.\<close>

definition fan_of :: "int list \<Rightarrow> tri list" where
  "fan_of f = map (\<lambda>i. (f ! 0, f ! i, f ! Suc i)) [1..<length f - 1]"

subsection \<open>Serialisation\<close>

text \<open>\<^verbatim>\<open>struct.pack\<close> with the formats \<^verbatim>\<open><I\<close>, \<^verbatim>\<open><3f\<close> and \<^verbatim>\<open><H\<close>: little-endian.\<close>

definition le32 :: "32 word \<Rightarrow> byte list" where
  "le32 w = [ucast w, ucast (drop_bit 8 w), ucast (drop_bit 16 w), ucast (drop_bit 24 w)]"

definition pack_I :: "nat \<Rightarrow> exn + byte list" where
  "pack_I n = (if n < 2 ^ 32 then Inr (le32 (of_nat n)) else Inl StructError)"

definition pack_3f :: "vec3f \<Rightarrow> byte list" where
  "pack_3f v = (case v of (x, y, z) \<Rightarrow> le32 x @ le32 y @ le32 z)"

definition pack_H :: "16 word \<Rightarrow> byte list" where
  "pack_H w = [ucast w, ucast (drop_bit 8 w)]"

text \<open>Reading a little-endian unsigned field back.\<close>

fun le_value :: "byte list \<Rightarrow> nat" where
  "le_value [] = 0"
| "le_value (b # bs) = unat b + 256 * le_value bs"

fun str_nat :: "nat \<Rightarrow> string" where
  "str_nat n = (if n < 10 then [char_of (48 + n)]
                else str_nat (n div 10) @ [char_of (48 + n mod 10)])"

definition str_int :: "int \<Rightarrow> string" where
  "str_int i = (if i < 0 then CHR ''-'' # str_nat (nat (- i)) else str_nat (nat i))"

fun join :: "string \<Rightarrow> string list \<Rightarrow> string" where
  "join sep [] = []"
| "join sep [x] = x"
| "join sep (x # y # ys) = x @ sep @ join sep (y # ys)"

subsection \<open>The binary writer\<close>

definition stl_normal :: "gf_ops \<Rightarrow> vec3f \<Rightarrow> vec3f \<Rightarrow> vec3f \<Rightarrow> vec3f" where
  "stl_normal gf p0 p1 p2 =
     (let normal = vcross gf (vsub gf p1 p0) (vsub gf p2 p0)
      in if length_positive gf normal then get_normalized gf normal else normal)"

definition stl_record :: "gf_ops \<Rightarrow> vec3f list \<Rightarrow> tri \<Rightarrow> exn + byte list" where
  "stl_record gf points t =
     (case t of (a, b, c) \<Rightarrow>
        bind_exn (vt_index points a) (\<lambda>p0.
        bind_exn (vt_index points b) (\<lambda>p1.
        bind_exn (vt_index points c) (\<lambda>p2.
          Inr (pack_3f (stl_normal gf p0 p1 p2) @ pack_3f p0 @ pack_3f p1 @ pack_3f p2
               @ pack_H 0)))))"

text \<open>
  The loop over the triangles writes as it goes: when a point lookup raises, the records
  before it are already in the file.  The result is what was written and the exception, if any.
\<close>

fun stl_records :: "gf_ops \<Rightarrow> vec3f list \<Rightarrow> tri list \<Rightarrow> byte list \<times> exn option" where
  "stl_records gf points [] = ([], None)"
| "stl_records gf points (t # ts) =
     (case stl_record gf points t of
        Inl e \<Rightarrow> ([], Some e)
      | Inr r \<Rightarrow> (case stl_records gf points ts of (bs, e) \<Rightarrow> (r @ bs, e)))"

definition stl_bytes :: "gf_ops \<Rightarrow> vec3f list \<Rightarrow> tri list \<Rightarrow> byte list \<times> exn option" where
  "stl_bytes gf points triangles =
     (case pack_I (length triangles) of
        Inl e \<Rightarrow> (replicate 80 0, Some e)
      | Inr n \<Rightarrow> (case stl_records gf points triangles of
                  (bs, e) \<Rightarrow> (replicate 80 0 @ n @ bs, e)))"

subsection \<open>The text writer\<close>

definition obj_text :: "gf_ops \<Rightarrow> string \<Rightarrow> vec3f list \<Rightarrow> tri list \<Rightarrow> string" where
  "obj_text gf ppath points triangles =
     join [CHR 0x0A]
       ((''# Exported from '' @ ppath)
        # map (\<lambda>(x, y, z). ''v '' @ str_float gf x @ '' '' @ str_float gf y @ '' ''
                            @ str_float gf z) points
        @ map (\<lambda>(a, b, c). ''f '' @ str_int (a + 1) @ '' '' @ str_int (b + 1) @ '' ''
                            @ str_int (c + 1)) triangles)"

subsection \<open>export_mesh\<close>

record export_result =
  er_output :: string
  er_format :: string
  er_triangles :: nat
  er_size_bytes :: nat
  er_status :: string

definition write_file :: "storage \<Rightarrow> string \<Rightarrow> stored_file \<Rightarrow> storage" where
  "write_file fs output content = fs\<lparr>files := (files fs)(output \<mapsto> content)\<rparr>"

definition export_ok :: "string \<Rightarrow> string \<Rightarrow> tri list \<Rightarrow> nat \<Rightarrow> export_result reply" where
  "export_ok output fmt triangles file_size =
     Success \<lparr>er_output = output, er_format = fmt, er_triangles = length triangles,
              er_size_bytes = file_size, er_status = ''ok''\<rparr>"

text \<open>The part of \<^verbatim>\<open>export_mesh\<close> from \<^verbatim>\<open>if fmt == "obj"\<close> on.\<close>

definition write_mesh ::
  "gf_ops \<Rightarrow> storage \<Rightarrow> string \<Rightarrow> string \<Rightarrow> string \<Rightarrow> vec3f list \<Rightarrow> tri list
     \<Rightarrow> (exn + export_result reply) \<times> storage" where
  "write_mesh gf fs ppath output fmt points triangles =
     (if unwritable fs output then (Inl OSError, fs)
      else if fmt = ''obj'' then
        (let text = obj_text gf ppath points triangles
         in (Inr (export_ok output fmt triangles (length text)),
             write_file fs output (TextFile text)))
      else
        (case stl_bytes gf points triangles of
           (bs, Some e) \<Rightarrow> (Inl e, write_file fs output (BinaryFile bs))
         | (bs, None) \<Rightarrow> (Inr (export_ok output fmt triangles (length bs)),
                          write_file fs output (BinaryFile bs))))"

text \<open>
  \<^verbatim>\<open>export_mesh\<close>.  The result is the exception raised or the dict returned, and the storage
  as the call leaves it.  The two early returns and the triangulation come before the
  output is opened.
\<close>

definition export_mesh ::
  "gf_ops \<Rightarrow> storage \<Rightarrow> string \<Rightarrow> string \<Rightarrow> string \<Rightarrow> string
     \<Rightarrow> (exn + export_result reply) \<times> storage" where
  "export_mesh gf fs path ppath output fmt =
     (case open_stage fs path of
        Inl e \<Rightarrow> (Inl e, fs)
      | Inr st \<Rightarrow>
         (case GetPrimAtPath st ppath of
            None \<Rightarrow> (Inr (ErrorPayload (''Not a valid mesh prim: '' @ ppath)), fs)
          | Some prim \<Rightarrow>
             if \<not> IsA prim Mesh
             then (Inr (ErrorPayload (''Not a valid mesh prim: '' @ ppath)), fs)
             else
               (let points = points_attr (data prim);
                    face_vertex_counts = face_vertex_counts_attr (data prim);
                    face_vertex_indices = face_vertex_indices_attr (data prim)
                in if falsy points \<or> falsy face_vertex_counts \<or> falsy face_vertex_indices
                   then (Inr (ErrorPayload ''Mesh has no geometry data''), fs)
                   else
                     (case triangulate (the face_vertex_indices) (the face_vertex_counts) 0 of
                        Inl e \<Rightarrow> (Inl e, fs)
                      | Inr triangles \<Rightarrow>
                          write_mesh gf fs ppath output fmt (the points) triangles))))"

section \<open>Scene queries\<close>

subsection \<open>inspect_scene\<close>

datatype prim_info =
  PrimInfo (info_path: string) (info_type: string) (info_faces: "nat option")
           (info_children: "prim_info list option")

definition face_count :: "prim_data \<Rightarrow> nat option" where
  "face_count d =
     (if type_name d = ''Mesh''
      then (case face_vertex_counts_attr d of
              None \<Rightarrow> None
            | Some fc \<Rightarrow> if fc = [] then None else Some (length fc))
      else None)"

fun walk :: "prim \<Rightarrow> prim_info" where
  "walk (Prim d cs) =
     PrimInfo (prim_path d) (type_name d) (face_count d)
       (if map walk cs = [] then None else Some (map walk cs))"

record inspect_result =
  ir_scene :: "prim_info list"
  ir_up_axis :: string
  ir_meters_per_unit :: "64 word"

definition inspect_scene :: "storage \<Rightarrow> string \<Rightarrow> exn + inspect_result" where
  "inspect_scene fs path =
     bind_exn (open_stage fs path) (\<lambda>st.
       Inr \<lparr>ir_scene = map walk (children (pseudo_root st)),
            ir_up_axis = up_axis st,
            ir_meters_per_unit = meters_per_unit st\<rparr>)"

text \<open>The number of nodes in the nested output.\<close>

fun info_count :: "prim_info \<Rightarrow> nat" where
  "info_count (PrimInfo p t f cs) =
     Suc (case cs of None \<Rightarrow> 0 | Some xs \<Rightarrow> sum_list (map info_count xs))"

definition walker_node_count :: "storage \<Rightarrow> string \<Rightarrow> exn + nat" where
  "walker_node_count fs path =
     bind_exn (inspect_scene fs path) (\<lambda>r. Inr (sum_list (map info_count (ir_scene r))))"

subsection \<open>scene_stats\<close>

text \<open>
  The counting loop of \<^verbatim>\<open>scene_stats\<close>.  The bounding box, a floating-point computation of
  the library, is left out of the result.
\<close>

record stats_result =
  prim_count :: nat
  mesh_count :: nat
  material_count :: nat
  total_faces :: nat
  ss_up_axis :: string
  ss_meters_per_unit :: "64 word"

definition stats_step :: "stats_result \<Rightarrow> prim \<Rightarrow> stats_result" where
  "stats_step s p =
     (let s1 = s\<lparr>prim_count := prim_count s + 1\<rparr>
      in if type_name (data p) = ''Mesh'' then
           (let s2 = s1\<lparr>mesh_count := mesh_count s1 + 1\<rparr>
            in case face_vertex_counts_attr (data p) of
                 None \<Rightarrow> s2
               | Some fc \<Rightarrow> if fc = [] then s2
                            else s2\<lparr>total_faces := total_faces s2 + length fc\<rparr>)
         else if type_name (data p) = ''Material'' then
           s1\<lparr>material_count := material_count s1 + 1\<rparr>
         else s1)"

definition scene_stats :: "storage \<Rightarrow> string \<Rightarrow> exn + stats_result" where
  "scene_stats fs path =
     bind_exn (open_stage fs path) (\<lambda>st.
       Inr (foldl stats_step
              \<lparr>prim_count = 0, mesh_count = 0, material_count = 0, total_faces = 0,
               ss_up_axis = up_axis st, ss_meters_per_unit = meters_per_unit st\<rparr>
              (Traverse st)))"

definition stats_prim_count :: "storage \<Rightarrow> string \<Rightarrow> exn + nat" where
  "stats_prim_count fs path = bind_exn (scene_stats fs path) (\<lambda>s. Inr (prim_count s))"

subsection \<open>get_materials\<close>

record material_info =
  mi_path :: string
  mi_shader :: "string option"
  mi_params :: "(string \<times> string) list option"

text \<open>The inputs of a shader that have a value, formatted.\<close>

definition shader_params :: "shader_source \<Rightarrow> (string \<times> string) list" where
  "shader_params src = [(n, v). (n, Some v) \<leftarrow> src_inputs src]"

definition material_entry :: "prim \<Rightarrow> material_info" where
  "material_entry p =
     foldl (\<lambda>info src. info\<lparr>mi_shader := Some (src_path src),
                             mi_params := Some (shader_params src)\<rparr>)
           \<lparr>mi_path = prim_path (data p), mi_shader = None, mi_params = None\<rparr>
           (surface_sources (data p))"

definition get_materials :: "storage \<Rightarrow> string \<Rightarrow> exn + material_info list" where
  "get_materials fs path =
     bind_exn (open_stage fs path) (\<lambda>st.
       Inr (map material_entry (filter (\<lambda>p. IsA p Material) (Traverse st))))"

subsection \<open>get_transforms\<close>

record transform_info =
  ti_path :: string
  ti_local_transform :: string
  ti_world_transform :: string

definition transform_entry :: "prim \<Rightarrow> transform_info" where
  "transform_entry p =
     \<lparr>ti_path = prim_path (data p),
      ti_local_transform = local_transformation (data p),
      ti_world_transform = local_to_world (data p)\<rparr>"

text \<open>\<^verbatim>\<open>if prim_path:\<close> holds for a path that is given and not the empty string.\<close>

definition selected_prims :: "stage \<Rightarrow> string option \<Rightarrow> prim option list" where
  "selected_prims st ppath =
     (case ppath of
        Some p \<Rightarrow> if p \<noteq> [] then [GetPrimAtPath st p]
                  else map Some (filter (\<lambda>q. IsA q Xformable) (Traverse st))
      | None \<Rightarrow> map Some (filter (\<lambda>q. IsA q Xformable) (Traverse st)))"

definition get_transforms ::
  "storage \<Rightarrow> string \<Rightarrow> string option \<Rightarrow> exn + transform_info list reply" where
  "get_transforms fs path ppath =
     bind_exn (open_stage fs path) (\<lambda>st.
       Inr (Success [transform_entry p. Some p \<leftarrow> selected_prims st ppath]))"

section \<open>Variants\<close>

record variant_set_info =
  vi_name :: string
  vi_options :: "string list"
  vi_selected :: string

record prim_variants =
  pv_path :: string
  pv_variant_sets :: "variant_set_info list"

definition HasVariantSet :: "prim \<Rightarrow> string \<Rightarrow> bool" where
  "HasVariantSet p name = (name \<in> set (map fst (variant_sets (data p))))"

text \<open>A set that the prim does not have is a set without variants and without a selection.\<close>

definition GetVariantSet :: "prim \<Rightarrow> string \<Rightarrow> variant_set" where
  "GetVariantSet p name =
     (case map_of (variant_sets (data p)) name of
        Some vs \<Rightarrow> vs
      | None \<Rightarrow> \<lparr>vs_names = [], vs_selection = []\<rparr>)"

definition prim_variant_sets :: "prim \<Rightarrow> variant_set_info list" where
  "prim_variant_sets p =
     map (\<lambda>name. \<lparr>vi_name = name,
                  vi_options = vs_names (GetVariantSet p name),
                  vi_selected = vs_selection (GetVariantSet p name)\<rparr>)
         (map fst (variant_sets (data p)))"

definition list_variants :: "storage \<Rightarrow> string \<Rightarrow> exn + prim_variants list" where
  "list_variants fs path =
     bind_exn (open_stage fs path) (\<lambda>st.
       Inr [\<lparr>pv_path = prim_path (data p), pv_variant_sets = prim_variant_sets p\<rparr>.
            p \<leftarrow> Traverse st, map fst (variant_sets (data p)) \<noteq> []])"

record set_variant_result =
  sv_path :: string
  sv_variant_set :: string
  sv_selected :: string
  sv_status :: string

text \<open>Python's \<^verbatim>\<open>str\<close> of a list of variant names (identifiers, so without escapes).\<close>

definition str_list :: "string list \<Rightarrow> string" where
  "str_list names = ''['' @ join '', '' (map (\<lambda>n. [CHR 0x27] @ n @ [CHR 0x27]) names) @ '']''"

text \<open>\<^verbatim>\<open>vset.SetVariantSelection(variant)\<close>: the selection changes on the open stage.\<close>

fun map_prims :: "(prim_data \<Rightarrow> prim_data) \<Rightarrow> prim \<Rightarrow> prim" where
  "map_prims f (Prim d cs) = Prim (f d) (map (map_prims f) cs)"

definition select_in :: "string \<Rightarrow> string \<Rightarrow> string \<Rightarrow> prim_data \<Rightarrow> prim_data" where
  "select_in ppath vset variant d =
     (if prim_path d = ppath
      then d\<lparr>variant_sets :=
               map (\<lambda>(n, s). if n = vset then (n, s\<lparr>vs_selection := variant\<rparr>) else (n, s))
                   (variant_sets d)\<rparr>
      else d)"

definition SetVariantSelection :: "stage \<Rightarrow> string \<Rightarrow> string \<Rightarrow> string \<Rightarrow> stage" where
  "SetVariantSelection st ppath vset variant =
     st\<lparr>pseudo_root := map_prims (select_in ppath vset variant) (pseudo_root st)\<rparr>"

text \<open>
  The body of \<^verbatim>\<open>set_variant\<close> on the stage it has opened: the reply, and the stage object as
  the function leaves it.
\<close>

definition set_variant_on ::
  "stage \<Rightarrow> string \<Rightarrow> string \<Rightarrow> string \<Rightarrow> set_variant_result reply \<times> stage" where
  "set_variant_on st ppath vset variant =
     (case GetPrimAtPath st ppath of
        None \<Rightarrow> (ErrorPayload (''Prim not found: '' @ ppath), st)
      | Some prim \<Rightarrow>
          if \<not> HasVariantSet prim vset
          then (ErrorPayload (''Variant set not found: '' @ vset), st)
          else if variant \<notin> set (vs_names (GetVariantSet prim vset))
          then (ErrorPayload (''Variant not found: '' @ variant @ ''. Available: ''
                              @ str_list (vs_names (GetVariantSet prim vset))), st)
          else (Success \<lparr>sv_path = ppath, sv_variant_set = vset, sv_selected = variant,
                         sv_status = ''ok''\<rparr>,
                SetVariantSelection st ppath vset variant))"

text \<open>
  \<^verbatim>\<open>set_variant\<close> opens the stage, runs the body and returns the reply.  Nothing in it saves
  the stage or its root layer (as \<^verbatim>\<open>stage.GetRootLayer().Save()\<close> does in
  \<^verbatim>\<open>scripts/generate_examples.py\<close>): the stage object goes with the function's locals and
  the storage is the one the call started with.
\<close>

definition set_variant ::
  "storage \<Rightarrow> string \<Rightarrow> string \<Rightarrow> string \<Rightarrow> string
     \<Rightarrow> (exn + set_variant_result reply) \<times> storage" where
  "set_variant fs path ppath vset variant =
     (case open_stage fs path of
        Inl e \<Rightarrow> (Inl e, fs)
      | Inr st \<Rightarrow> (Inr (fst (set_variant_on st ppath vset variant)), fs))"

section \<open>An example document\<close>

text \<open>
  A small product scene after \<^verbatim>\<open>scripts/generate_examples.py\<close>: an Xform \<^verbatim>\<open>/Product\<close> with the
  variant set \<^verbatim>\<open>size\<close> (selection \<^verbatim>\<open>medium\<close>), a quad mesh, a mesh whose only face is a
  triangle with three times the same vertex, and a material without a connected shader.
  The theorems below are evaluated on it.
\<close>

definition plain_prim :: "string \<Rightarrow> string \<Rightarrow> schema list \<Rightarrow> prim_data" where
  "plain_prim p t ss =
     \<lparr>prim_path = p, type_name = t, schemas = ss, points_attr = None,
      face_vertex_counts_attr = None, face_vertex_indices_attr = None,
      surface_sources = [], local_transformation = ''( (1, 0, 0, 0), (0, 1, 0, 0), (0, 0, 1, 0), (0, 0, 0, 1) )'',
      local_to_world = ''( (1, 0, 0, 0), (0, 1, 0, 0), (0, 0, 1, 0), (0, 0, 0, 1) )'',
      variant_sets = []\<rparr>"

definition demo_quad :: prim where
  "demo_quad =
     Prim ((plain_prim ''/Product/Body'' ''Mesh'' [Xformable, Gprim, Mesh])
             \<lparr>points_attr := Some [(0, 0, 0), (0x3F800000, 0, 0),
                                   (0x3F800000, 0x3F800000, 0), (0, 0x3F800000, 0)],
              face_vertex_counts_attr := Some [4],
              face_vertex_indices_attr := Some [0, 1, 2, 3]\<rparr>) []"

definition demo_sliver :: prim where
  "demo_sliver =
     Prim ((plain_prim ''/Product/Sliver'' ''Mesh'' [Xformable, Gprim, Mesh])
             \<lparr>points_attr := Some [(0x3F800000, 0x3F800000, 0x3F800000)],
              face_vertex_counts_attr := Some [3],
              face_vertex_indices_attr := Some [0, 0, 0]\<rparr>) []"

definition demo_material :: prim where
  "demo_material = Prim (plain_prim ''/Product/Bare'' ''Material'' [Material]) []"

definition demo_product :: prim where
  "demo_product =
     Prim ((plain_prim ''/Product'' ''Xform'' [Xformable])
             \<lparr>variant_sets :=
                [(''size'', \<lparr>vs_names = [''small'', ''medium'', ''large''],
                            vs_selection = ''medium''\<rparr>)]\<rparr>)
          [demo_quad, demo_sliver, demo_material]"

definition demo_stage :: stage where
  "demo_stage =
     \<lparr>pseudo_root = Prim (plain_prim ''/'' [] []) [demo_product],
      up_axis = ''Y'', meters_per_unit = 0x3F847AE147AE147B\<rparr>"

definition demo_fs :: storage where
  "demo_fs = \<lparr>files = [''product.usda'' \<mapsto> UsdFile demo_stage], unwritable = (\<lambda>p. False)\<rparr>"

text \<open>
  An instance of the vector operations for evaluating the model: the arithmetic of the
  bit patterns as integers.  It agrees with the floats where all operands are equal or zero.
\<close>

definition toy_gf :: gf_ops where
  "toy_gf =
     \<lparr>vsub = (\<lambda>(a, b, c) (d, e, f). (a - d, b - e, c - f)),
      vcross = (\<lambda>(a, b, c) (d, e, f). (b * f - c * e, c * d - a * f, a * e - b * d)),
      length_positive = (\<lambda>v. v \<noteq> (0, 0, 0)),
      get_normalized = (\<lambda>v. v),
      str_float = (\<lambda>w. str_nat (unat w))\<rparr>"

section \<open>Properties\<close>

lemma bind_exn_Inr [simp]: "bind_exn (Inr x) f = f x"
  by (simp add: bind_exn_def)

lemma bind_exn_Inl [simp]: "bind_exn (Inl e) f = Inl e"
  by (simp add: bind_exn_def)

lemma mapM_exn_all_Inr:
  "(\<And>x. x \<in> set xs \<Longrightarrow> f x = Inr (g x)) \<Longrightarrow> mapM_exn f xs = Inr (map g xs)"
  by (induction xs) simp_all

lemma vt_index_in_range:
  "n < length xs \<Longrightarrow> vt_index xs (int n) = Inr (xs ! n)"
  by (simp add: vt_index_def)

lemma fan_triangle_face:
  assumes "Suc i < length f"
  shows "fan_triangle (pre @ f @ post) (int (length pre)) (int i) = Inr (f ! 0, f ! i, f ! Suc i)"
proof -
  let ?xs = "pre @ f @ post"
  from assms have ne: "f \<noteq> []" by auto
  have a: "vt_index ?xs (int (length pre)) = Inr (f ! 0)"
    using ne vt_index_in_range [of "length pre" ?xs] by (simp add: nth_append)
  have b: "vt_index ?xs (int (length pre) + int i) = Inr (f ! i)"
    using assms vt_index_in_range [of "length pre + i" ?xs] by (simp add: nth_append)
  have c: "vt_index ?xs (int (length pre) + int i + 1) = Inr (f ! Suc i)"
    using assms vt_index_in_range [of "length pre + Suc i" ?xs]
    by (simp add: nth_append add.commute add.left_commute)
  show ?thesis by (simp add: fan_triangle_def a b c)
qed

lemma fan_face:
  "mapM_exn (fan_triangle (pre @ f @ post) (int (length pre))) (fan_range (int (length f)))
     = Inr (fan_of f)"
proof -
  have r: "fan_range (int (length f)) = map int [1..<length f - 1]"
    by (simp add: fan_range_def nat_diff_distrib')
  have "mapM_exn (fan_triangle (pre @ f @ post) (int (length pre))) (map int [1..<length f - 1])
      = Inr (map (\<lambda>j. (f ! 0, f ! nat j, f ! Suc (nat j))) (map int [1..<length f - 1]))"
    by (rule mapM_exn_all_Inr) (auto simp: fan_triangle_face)
  then show ?thesis by (simp add: r fan_of_def comp_def)
qed

lemma triangulate_faces:
  "triangulate (pre @ concat faces @ post) (map (\<lambda>f. int (length f)) faces) (int (length pre))
     = Inr (concat (map fan_of faces))"
proof (induction faces arbitrary: pre)
  case Nil
  show ?case by simp
next
  case (Cons f faces)
  have face: "mapM_exn (fan_triangle (pre @ f @ concat faces @ post) (int (length pre)))
                (fan_range (int (length f))) = Inr (fan_of f)"
    by (rule fan_face)
  have rest: "triangulate (pre @ f @ concat faces @ post) (map (\<lambda>f. int (length f)) faces)
                (int (length pre) + int (length f)) = Inr (concat (map fan_of faces))"
    using Cons.IH [of "pre @ f"] by simp
  show ?case by (simp add: face rest)
qed

lemma length_fan_of: "length (fan_of f) = length f - 2"
  by (simp add: fan_of_def)

subsection \<open>Bytes\<close>

lemma length_le32 [simp]: "length (le32 w) = 4"
  by (simp add: le32_def)

lemma length_pack_3f [simp]: "length (pack_3f v) = 12"
  by (simp add: pack_3f_def split: prod.splits)

lemma pack_H_zero: "pack_H 0 = [0, 0]"
  by (simp add: pack_H_def)

lemma unat_byte_of: "unat (ucast (drop_bit k (w :: 32 word)) :: byte) = (unat w div 2 ^ k) mod 256"
proof -
  have "unat (ucast (drop_bit k w) :: byte) = unat (drop_bit k w) mod 256"
    by (simp only: unsigned_ucast_eq take_bit_eq_mod) simp
  also have "unat (drop_bit k w) = unat w div 2 ^ k"
    by (simp only: unat_drop_bit_eq) (simp add: drop_bit_eq_div)
  finally show ?thesis .
qed

lemma base256_digits:
  "a0 + 256 * A = n \<Longrightarrow> a1 + 256 * B = A \<Longrightarrow> a2 + 256 * C = B
     \<Longrightarrow> a0 + (256 * a1 + (65536 * a2 + 16777216 * C)) = (n::nat)"
  by simp

lemma base256_split:
  "n mod 256 + (256 * (n div 256 mod 256) + (65536 * (n div 65536 mod 256)
     + 16777216 * (n div 16777216))) = (n::nat)"
proof -
  have d2: "n div 65536 = n div 256 div 256" by (simp add: div_mult2_eq)
  have d3: "n div 16777216 = n div 256 div 256 div 256" by (simp add: div_mult2_eq)
  show ?thesis
    unfolding d2 d3
    by (rule base256_digits [of _ "n div 256" _ _ "n div 256 div 256"]) simp_all
qed

lemma le_value_le32: "le_value (le32 w) = unat w"
proof -
  have b: "unat w < 2 ^ 32" using unsigned_less [of w] by simp
  have "unat (ucast w :: byte) = unat w mod 256"
    using unat_byte_of [of 0 w] by simp
  moreover have "unat w div 16777216 < 256"
    using b by (simp add: div_less_iff_less_mult)
  ultimately show ?thesis
    by (simp add: le32_def unat_byte_of base256_split)
qed

lemma unat_of_nat32: "n < 2 ^ 32 \<Longrightarrow> unat (of_nat n :: 32 word) = n"
  by (simp add: unat_of_nat)

lemma concat_block:
  "(\<And>r. r \<in> set rs \<Longrightarrow> length r = n) \<Longrightarrow> k < length rs
     \<Longrightarrow> take n (drop (n * k) (concat rs)) = rs ! k"
proof (induction rs arbitrary: k)
  case Nil
  then show ?case by simp
next
  case (Cons r rs)
  show ?case
  proof (cases k)
    case 0
    then show ?thesis using Cons.prems(1) [of r] by simp
  next
    case (Suc j)
    then show ?thesis using Cons by simp
  qed
qed

lemma length_concat_blocks:
  "(\<And>r. r \<in> set rs \<Longrightarrow> length r = n) \<Longrightarrow> length (concat rs) = n * length rs"
  by (induction rs) simp_all

subsection \<open>The binary file\<close>

lemma stl_record_shape:
  assumes "stl_record gf pts t = Inr r"
  shows "\<exists>p0 p1 p2. r = pack_3f (stl_normal gf p0 p1 p2) @ pack_3f p0 @ pack_3f p1 @ pack_3f p2 @ [0, 0]"
proof -
  obtain a b c where t: "t = (a, b, c)" by (cases t) auto
  from assms show ?thesis
    unfolding stl_record_def t bind_exn_def pack_H_zero
    by (simp del: split_paired_Ex split: sum.splits) blast
qed

lemma stl_records_complete:
  "stl_records gf pts ts = (bs, None) \<Longrightarrow>
     \<exists>rs. bs = concat rs \<and> length rs = length ts \<and>
          (\<forall>r\<in>set rs. \<exists>p0 p1 p2. r = pack_3f (stl_normal gf p0 p1 p2) @ pack_3f p0
                                        @ pack_3f p1 @ pack_3f p2 @ [0, 0])"
proof (induction ts arbitrary: bs)
  case Nil
  then show ?case by simp
next
  case (Cons t ts)
  from Cons.prems obtain r bs' where
    r: "stl_record gf pts t = Inr r" and rest: "stl_records gf pts ts = (bs', None)"
    and bs: "bs = r @ bs'"
    by (auto split: sum.splits prod.splits)
  from Cons.IH [OF rest] obtain rs where
    rs: "bs' = concat rs" "length rs = length ts"
      "\<forall>r\<in>set rs. \<exists>p0 p1 p2. r = pack_3f (stl_normal gf p0 p1 p2) @ pack_3f p0
                                        @ pack_3f p1 @ pack_3f p2 @ [0, 0]"
    by blast
  have "bs = concat (r # rs)" using bs rs by simp
  moreover have "length (r # rs) = length (t # ts)" using rs by simp
  moreover have "\<forall>x\<in>set (r # rs). \<exists>p0 p1 p2. x = pack_3f (stl_normal gf p0 p1 p2) @ pack_3f p0
                                        @ pack_3f p1 @ pack_3f p2 @ [0, 0]"
    using rs(3) stl_record_shape [OF r] by simp
  ultimately show ?case by blast
qed

lemma write_mesh_binary:
  assumes "write_mesh gf fs pp output fmt pts tris = (Inr (Success r), fs')" and "fmt \<noteq> ''obj''"
  shows "\<exists>rs. length rs = length tris \<and> length tris < 2 ^ 32 \<and>
          (\<forall>x\<in>set rs. \<exists>p0 p1 p2. x = pack_3f (stl_normal gf p0 p1 p2) @ pack_3f p0
                                        @ pack_3f p1 @ pack_3f p2 @ [0, 0]) \<and>
          files fs' output
            = Some (BinaryFile (replicate 80 0 @ le32 (of_nat (length tris)) @ concat rs)) \<and>
          r = \<lparr>er_output = output, er_format = fmt, er_triangles = length tris,
               er_size_bytes = length (replicate 80 (0::byte) @ le32 (of_nat (length tris)) @ concat rs),
               er_status = ''ok''\<rparr>"
proof -
  from assms obtain bs where
    sb: "stl_bytes gf pts tris = (bs, None)"
    and fs': "fs' = write_file fs output (BinaryFile bs)"
    and r: "Success r = export_ok output fmt tris (length bs)"
    by (auto simp: write_mesh_def split: if_splits prod.splits option.splits)
  from sb obtain n recs where
    n: "pack_I (length tris) = Inr n" and recs: "stl_records gf pts tris = (recs, None)"
    and bs: "bs = replicate 80 0 @ n @ recs"
    by (auto simp: stl_bytes_def split: sum.splits prod.splits)
  from n have lt: "length tris < 2 ^ 32" and n': "n = le32 (of_nat (length tris))"
    by (auto simp: pack_I_def split: if_splits)
  from stl_records_complete [OF recs] obtain rs where
    rs: "recs = concat rs" "length rs = length tris"
      "\<forall>x\<in>set rs. \<exists>p0 p1 p2. x = pack_3f (stl_normal gf p0 p1 p2) @ pack_3f p0
                                        @ pack_3f p1 @ pack_3f p2 @ [0, 0]"
    by blast
  have "files fs' output = Some (BinaryFile (replicate 80 0 @ le32 (of_nat (length tris)) @ concat rs))"
    using fs' bs n' rs(1) by (simp add: write_file_def)
  moreover have "r = \<lparr>er_output = output, er_format = fmt, er_triangles = length tris,
               er_size_bytes = length (replicate 80 (0::byte) @ le32 (of_nat (length tris)) @ concat rs),
               er_status = ''ok''\<rparr>"
    using r bs n' rs(1) by (simp add: export_ok_def)
  ultimately show ?thesis using rs(2,3) lt by blast
qed

lemma export_mesh_reaches_write:
  assumes "export_mesh gf fs path pp output fmt = (Inr (Success r), fs')"
  shows "\<exists>pts tris. write_mesh gf fs pp output fmt pts tris = (Inr (Success r), fs')"
  using assms
  by (auto simp: export_mesh_def Let_def split: sum.splits option.splits if_splits)

lemma export_mesh_success:
  assumes "export_mesh gf fs path pp output fmt = (Inr (Success r), fs')"
  shows "\<exists>st prim pts fvc fvi tris.
           open_stage fs path = Inr st \<and> GetPrimAtPath st pp = Some prim \<and> IsA prim Mesh \<and>
           points_attr (data prim) = Some pts \<and>
           face_vertex_counts_attr (data prim) = Some fvc \<and>
           face_vertex_indices_attr (data prim) = Some fvi \<and>
           triangulate fvi fvc 0 = Inr tris \<and>
           write_mesh gf fs pp output fmt pts tris = (Inr (Success r), fs')"
  using assms
  by (auto simp: export_mesh_def Let_def falsy_def split: sum.splits option.splits if_splits)

lemma write_mesh_triangles:
  assumes "write_mesh gf fs pp output fmt pts tris = (Inr (Success r), fs')"
  shows "er_triangles r = length tris"
  using assms
  by (auto simp: write_mesh_def export_ok_def Let_def split: if_splits prod.splits option.splits)

lemma export_binary_file:
  assumes ok: "export_mesh gf fs path pp output fmt = (Inr (Success r), fs')"
    and fmt: "fmt \<noteq> ''obj''"
  shows "\<exists>rs. length rs = er_triangles r \<and> er_triangles r < 2 ^ 32 \<and>
          (\<forall>x\<in>set rs. \<exists>p0 p1 p2. x = pack_3f (stl_normal gf p0 p1 p2) @ pack_3f p0
                                        @ pack_3f p1 @ pack_3f p2 @ [0, 0]) \<and>
          files fs' output
            = Some (BinaryFile (replicate 80 0 @ le32 (of_nat (er_triangles r)) @ concat rs)) \<and>
          er_format r = fmt \<and> er_output r = output \<and>
          er_size_bytes r = 84 + 50 * er_triangles r"
proof -
  from export_mesh_reaches_write [OF ok] obtain pts tris where
    w: "write_mesh gf fs pp output fmt pts tris = (Inr (Success r), fs')" by blast
  from write_mesh_binary [OF w fmt] obtain rs where
    rs: "length rs = length tris" "length tris < 2 ^ 32"
      "\<forall>x\<in>set rs. \<exists>p0 p1 p2. x = pack_3f (stl_normal gf p0 p1 p2) @ pack_3f p0
                                        @ pack_3f p1 @ pack_3f p2 @ [0, 0]"
      "files fs' output
         = Some (BinaryFile (replicate 80 0 @ le32 (of_nat (length tris)) @ concat rs))"
      "r = \<lparr>er_output = output, er_format = fmt, er_triangles = length tris,
               er_size_bytes = length (replicate 80 (0::byte) @ le32 (of_nat (length tris)) @ concat rs),
               er_status = ''ok''\<rparr>"
    by blast
  have len50: "length x = 50" if "x \<in> set rs" for x
    using rs(3) that by auto
  have "length (concat rs) = 50 * length rs"
    by (rule length_concat_blocks) (rule len50)
  then have size: "er_size_bytes r = 84 + 50 * er_triangles r"
    using rs(1) by (simp add: rs(5))
  have tr: "er_triangles r = length tris" by (simp add: rs(5))
  show ?thesis
    using rs(1-4) size unfolding tr [symmetric] by (intro exI [of _ rs]) (simp add: rs(5))
qed

lemma write_mesh_other_format:
  assumes "fmt \<noteq> ''obj''"
  shows "write_mesh gf fs pp output fmt pts tris
     = (map_sum id (map_reply (er_format_update (\<lambda>_. fmt)))
          (fst (write_mesh gf fs pp output ''stl'' pts tris)),
        snd (write_mesh gf fs pp output ''stl'' pts tris))"
  using assms
  by (simp add: write_mesh_def export_ok_def split: prod.splits option.splits)

lemma export_mesh_other_format:
  assumes "fmt \<noteq> ''obj''"
  shows "export_mesh gf fs path pp output fmt
     = (map_sum id (map_reply (er_format_update (\<lambda>_. fmt)))
          (fst (export_mesh gf fs path pp output ''stl'')),
        snd (export_mesh gf fs path pp output ''stl''))"
  unfolding export_mesh_def Let_def
  by (simp add: write_mesh_other_format [OF assms, symmetric] split: sum.splits option.splits)


subsection \<open>Variant messages and storage\<close>

lemma join_contains:
  "x \<in> set xs \<Longrightarrow> \<exists>a b. join sep xs = a @ x @ b"
proof (induction sep xs rule: join.induct)
  case (1 sep)
  then show ?case by simp
next
  case (2 sep y)
  then have "join sep [y] = [] @ x @ []" by simp
  then show ?case by blast
next
  case (3 sep y z zs)
  show ?case
  proof (cases "x = y")
    case True
    then have "join sep (y # z # zs) = [] @ x @ (sep @ join sep (z # zs))" by simp
    then show ?thesis by blast
  next
    case False
    with 3 obtain a b where "join sep (z # zs) = a @ x @ b" by auto
    then have "join sep (y # z # zs) = (y @ sep @ a) @ x @ b" by simp
    then show ?thesis by blast
  qed
qed

lemma str_list_contains:
  assumes "n \<in> set names"
  shows "\<exists>a b. str_list names = a @ n @ b"
proof -
  let ?q = "\<lambda>n. [CHR 0x27] @ n @ [CHR 0x27]"
  from assms have "?q n \<in> set (map ?q names)" by simp
  from join_contains [OF this] obtain a b where
    "join '', '' (map ?q names) = a @ ?q n @ b" by blast
  then have "str_list names = (''['' @ a @ [CHR 0x27]) @ n @ ([CHR 0x27] @ b @ '']'')"
    by (simp add: str_list_def)
  then show ?thesis by blast
qed

lemma set_variant_storage: "snd (set_variant fs path ppath vset variant) = fs"
  by (simp add: set_variant_def split: sum.splits)

subsection \<open>Counting the nodes\<close>

lemma info_count_walk: "info_count (walk p) = length (preorder p)"
proof (induction p)
  case (Prim d cs)
  have "sum_list (map info_count (map walk cs)) = length (concat (map preorder cs))"
    using Prim.IH by (induction cs) simp_all
  then show ?case by (cases cs) (simp_all add: comp_def)
qed

lemma sum_info_count_walk:
  "sum_list (map (info_count \<circ> walk) ps) = length (concat (map preorder ps))"
  by (induction ps) (simp_all add: info_count_walk)

lemma prim_count_stats_step: "prim_count (stats_step s p) = Suc (prim_count s)"
  by (simp add: stats_step_def Let_def split: option.splits)

lemma prim_count_foldl: "prim_count (foldl stats_step s ps) = prim_count s + length ps"
  by (induction ps arbitrary: s) (simp_all add: prim_count_stats_step)

lemma walker_node_count_open:
  "open_stage fs path = Inr st \<Longrightarrow> walker_node_count fs path = Inr (length (Traverse st))"
  by (simp add: walker_node_count_def inspect_scene_def Traverse_def sum_info_count_walk)

lemma stats_prim_count_open:
  "open_stage fs path = Inr st \<Longrightarrow> stats_prim_count fs path = Inr (length (Traverse st))"
  by (simp add: stats_prim_count_def scene_stats_def prim_count_foldl)

subsection \<open>The example document, evaluated\<close>

lemma demo_traverse:
  "Traverse demo_stage = [demo_product, demo_quad, demo_sliver, demo_material]"
  by (simp add: Traverse_def demo_stage_def demo_product_def demo_quad_def demo_sliver_def
      demo_material_def)

lemma sliver_normal_zero:
  "vcross toy_gf (vsub toy_gf p p) (vsub toy_gf p p) = (0, 0, 0) \<and> \<not> length_positive toy_gf (0, 0, 0)"
  by (cases p) (simp add: toy_gf_def)

lemma demo_open: "open_stage demo_fs ''product.usda'' = Inr demo_stage"
  by (simp add: open_stage_def demo_fs_def)

lemma demo_find_sliver: "GetPrimAtPath demo_stage ''/Product/Sliver'' = Some demo_sliver"
  by (simp add: GetPrimAtPath_def demo_stage_def demo_product_def demo_quad_def demo_sliver_def
      demo_material_def plain_prim_def)

lemma demo_find_quad: "GetPrimAtPath demo_stage ''/Product/Body'' = Some demo_quad"
  by (simp add: GetPrimAtPath_def demo_stage_def demo_product_def demo_quad_def demo_sliver_def
      demo_material_def plain_prim_def)

lemma fan_range_3: "fan_range 3 = [1]"
  by (simp add: fan_range_def upt_conv_Cons numeral_2_eq_2)

lemma fan_range_4: "fan_range 4 = [1, 2]"
  by (simp add: fan_range_def upt_conv_Cons numeral_3_eq_3 numeral_2_eq_2)

lemma tri_sliver: "triangulate [0, 0, 0] [3] 0 = Inr [(0, 0, 0)]"
  by (simp add: fan_range_3 fan_triangle_def vt_index_def)

lemma tri_quad: "triangulate [0, 1, 2, 3] [4] 0 = Inr [(0, 1, 2), (0, 2, 3)]"
  by (simp add: fan_range_4 fan_triangle_def vt_index_def)

lemma demo_writable: "unwritable demo_fs p = False"
  by (simp add: demo_fs_def)

lemma sliver_export:
  "fst (export_mesh toy_gf demo_fs ''product.usda'' ''/Product/Sliver'' ''out.stl'' ''stl'')
    = Inr (Success \<lparr>er_output = ''out.stl'', er_format = ''stl'', er_triangles = 1,
               er_size_bytes = 134, er_status = ''ok''\<rparr>)"
  by (simp add: export_mesh_def demo_open demo_find_sliver demo_sliver_def plain_prim_def
      IsA_def falsy_def tri_sliver write_mesh_def stl_bytes_def pack_I_def stl_record_def
      vt_index_def export_ok_def demo_writable pack_H_def Let_def del: triangulate.simps)


lemma demo_find_product: "GetPrimAtPath demo_stage ''/Product'' = Some demo_product"
  by (simp add: GetPrimAtPath_def demo_stage_def demo_product_def plain_prim_def)

lemma quad_export:
  "fst (export_mesh toy_gf demo_fs ''product.usda'' ''/Product/Body'' ''out.bin'' ''xyz'')
    = Inr (Success \<lparr>er_output = ''out.bin'', er_format = ''xyz'', er_triangles = 2,
               er_size_bytes = 184, er_status = ''ok''\<rparr>)"
  by (simp add: export_mesh_def demo_open demo_find_quad demo_quad_def plain_prim_def
      IsA_def falsy_def tri_quad write_mesh_def stl_bytes_def pack_I_def stl_record_def
      vt_index_def export_ok_def demo_writable pack_H_def Let_def del: triangulate.simps)

lemma product_export:
  "export_mesh toy_gf demo_fs ''product.usda'' ''/Product'' ''product.usda'' ''stl''
    = (Inr (ErrorPayload ''Not a valid mesh prim: /Product''), demo_fs)"
  by (simp add: export_mesh_def demo_open demo_find_product demo_product_def plain_prim_def
      IsA_def)

lemma demo_materials:
  "get_materials demo_fs ''product.usda''
     = Inr [\<lparr>mi_path = ''/Product/Bare'', mi_shader = None, mi_params = None\<rparr>]"
  by (simp add: get_materials_def demo_open demo_traverse IsA_def material_entry_def
      demo_product_def demo_quad_def demo_sliver_def demo_material_def plain_prim_def)

lemma demo_find_nope: "GetPrimAtPath demo_stage ''/Nope'' = None"
  by (simp add: GetPrimAtPath_def demo_stage_def demo_product_def demo_quad_def demo_sliver_def
      demo_material_def plain_prim_def)

lemma demo_has_size: "HasVariantSet demo_product ''size''"
  by (simp add: HasVariantSet_def demo_product_def plain_prim_def)

lemma demo_has_no_color: "\<not> HasVariantSet demo_product ''color''"
  by (simp add: HasVariantSet_def demo_product_def plain_prim_def)

lemma demo_size_names:
  "vs_names (GetVariantSet demo_product ''size'') = [''small'', ''medium'', ''large'']"
  by (simp add: GetVariantSet_def demo_product_def plain_prim_def)

lemma demo_variants:
  "list_variants demo_fs ''product.usda''
     = Inr [\<lparr>pv_path = ''/Product'',
             pv_variant_sets = [\<lparr>vi_name = ''size'',
                                 vi_options = [''small'', ''medium'', ''large''],
                                 vi_selected = ''medium''\<rparr>]\<rparr>]"
  by (simp add: list_variants_def demo_open demo_traverse prim_variant_sets_def
      GetVariantSet_def)
     (simp add: demo_product_def demo_quad_def demo_sliver_def demo_material_def plain_prim_def)

text \<open>
  Had the stage that \<^verbatim>\<open>set_variant\<close> leaves been written back to the path, the listing would
  show the new selection.
\<close>

lemma saved_stage_would_show:
  "list_variants
     (write_file demo_fs ''product.usda''
        (UsdFile (snd (set_variant_on demo_stage ''/Product'' ''size'' ''large''))))
     ''product.usda''
   = Inr [\<lparr>pv_path = ''/Product'',
           pv_variant_sets = [\<lparr>vi_name = ''size'',
                               vi_options = [''small'', ''medium'', ''large''],
                               vi_selected = ''large''\<rparr>]\<rparr>]"
  by (simp add: set_variant_on_def demo_find_product demo_has_size demo_size_names
        list_variants_def open_stage_def write_file_def SetVariantSelection_def Traverse_def
        prim_variant_sets_def GetVariantSet_def)
     (simp add: demo_stage_def demo_product_def demo_quad_def demo_sliver_def demo_material_def
        plain_prim_def select_in_def prim_variant_sets_def GetVariantSet_def)

section \<open>Claims about the binary export\<close>

text \<open>
  C2.  A successful export in the binary format (any format string other than \<^verbatim>\<open>obj\<close>)
  that reports \<open>N\<close> triangles leaves a file of exactly \<open>84 + 50 * N\<close> bytes at the output
  path, and that is the size it reports: 80 zero bytes, then the 4-byte little-endian
  count, which reads back as \<open>N\<close>, then \<open>N\<close> records of 50 bytes, each 12 bytes of normal
  floats, 36 bytes of vertex floats and two zero bytes.
\<close>

theorem binary_export_layout:
  assumes ok: "export_mesh gf fs path ppath output fmt = (Inr (Success r), fs')"
    and fmt: "fmt \<noteq> ''obj''"
  shows "\<exists>bs. files fs' output = Some (BinaryFile bs) \<and> er_size_bytes r = length bs \<and>
           length bs = 84 + 50 * er_triangles r \<and>
           take 80 bs = replicate 80 0 \<and>
           le_value (take 4 (drop 80 bs)) = er_triangles r \<and>
           (\<forall>k<er_triangles r. \<exists>n p0 p1 p2.
              take 12 (drop (84 + 50 * k) bs) = pack_3f n \<and>
              take 36 (drop (84 + 50 * k + 12) bs) = pack_3f p0 @ pack_3f p1 @ pack_3f p2 \<and>
              take 2 (drop (84 + 50 * k + 48) bs) = [0, 0])"
proof -
  from export_binary_file [OF ok fmt] obtain rs where
    rs: "length rs = er_triangles r" "er_triangles r < 2 ^ 32"
      "\<forall>x\<in>set rs. \<exists>p0 p1 p2. x = pack_3f (stl_normal gf p0 p1 p2) @ pack_3f p0
                                        @ pack_3f p1 @ pack_3f p2 @ [0, 0]"
      "files fs' output
         = Some (BinaryFile (replicate 80 0 @ le32 (of_nat (er_triangles r)) @ concat rs))"
      "er_size_bytes r = 84 + 50 * er_triangles r"
    by blast
  let ?bs = "replicate 80 (0::byte) @ le32 (of_nat (er_triangles r)) @ concat rs"
  have len50: "length x = 50" if "x \<in> set rs" for x
    using rs(3) that by auto
  have lc: "length (concat rs) = 50 * length rs"
    by (rule length_concat_blocks) (rule len50)
  have len: "length ?bs = 84 + 50 * er_triangles r"
    using lc rs(1) by simp
  have hdr: "take 80 ?bs = replicate 80 0" by simp
  have cnt: "le_value (take 4 (drop 80 ?bs)) = er_triangles r"
    using rs(2) by (simp add: le_value_le32 unat_of_nat32)
  have recs: "\<exists>n p0 p1 p2.
              take 12 (drop (84 + 50 * k) ?bs) = pack_3f n \<and>
              take 36 (drop (84 + 50 * k + 12) ?bs) = pack_3f p0 @ pack_3f p1 @ pack_3f p2 \<and>
              take 2 (drop (84 + 50 * k + 48) ?bs) = [0, 0]" if k: "k < er_triangles r" for k
  proof -
    have blk: "take 50 (drop (50 * k) (concat rs)) = rs ! k"
      using k rs(1) by (intro concat_block len50) simp_all
    have mem: "rs ! k \<in> set rs" using k rs(1) by simp
    with rs(3) obtain p0 p1 p2 where
      x: "rs ! k = pack_3f (stl_normal gf p0 p1 p2) @ pack_3f p0 @ pack_3f p1 @ pack_3f p2 @ [0, 0]"
      by blast
    have d: "drop (84 + 50 * k) ?bs = drop (50 * k) (concat rs)" by simp
    have a: "take 12 (drop (50 * k) (concat rs)) = take 12 (rs ! k)"
      using blk [symmetric] by simp
    have b: "take 36 (drop (50 * k + 12) (concat rs)) = take 36 (drop 12 (rs ! k))"
      unfolding blk [symmetric] by (simp add: drop_take add.commute)
    have c: "take 2 (drop (50 * k + 48) (concat rs)) = take 2 (drop 48 (rs ! k))"
      unfolding blk [symmetric] by (simp add: drop_take add.commute)
    have d12: "drop (84 + 50 * k + 12) ?bs = drop (50 * k + 12) (concat rs)"
      by (simp add: add.commute)
    have d48: "drop (84 + 50 * k + 48) ?bs = drop (50 * k + 48) (concat rs)"
      by (simp add: add.commute)
    show ?thesis
      unfolding d d12 d48 a b c x by (intro exI [of _ "stl_normal gf p0 p1 p2"] exI [of _ p0] exI [of _ p1] exI [of _ p2]) simp
  qed
  have sz: "er_size_bytes r = length ?bs" using rs(5) len by simp
  from rs(4) sz len hdr cnt recs show ?thesis by blast
qed

theorem binary_export_layout_witness:
  "export_mesh toy_gf demo_fs ''product.usda'' ''/Product/Sliver'' ''out.stl'' ''stl''
     = (Inr (Success \<lparr>er_output = ''out.stl'', er_format = ''stl'', er_triangles = 1,
                       er_size_bytes = 134, er_status = ''ok''\<rparr>),
        snd (export_mesh toy_gf demo_fs ''product.usda'' ''/Product/Sliver'' ''out.stl'' ''stl''))
   \<and> ''stl'' \<noteq> ''obj''
   \<and> (\<exists>bs. files (snd (export_mesh toy_gf demo_fs ''product.usda'' ''/Product/Sliver''
                           ''out.stl'' ''stl'')) ''out.stl'' = Some (BinaryFile bs)
           \<and> length bs = 134 \<and> take 80 bs = replicate 80 0
           \<and> le_value (take 4 (drop 80 bs)) = 1 \<and> take 2 (drop 132 bs) = [0, 0])"
proof -
  let ?e = "export_mesh toy_gf demo_fs ''product.usda'' ''/Product/Sliver'' ''out.stl'' ''stl''"
  let ?r = "\<lparr>er_output = ''out.stl'', er_format = ''stl'', er_triangles = 1,
                       er_size_bytes = 134, er_status = ''ok''\<rparr>"
  have h: "?e = (Inr (Success ?r), snd ?e)"
    using sliver_export by (simp add: prod_eq_iff)
  have f: "''stl'' \<noteq> ''obj''" by simp
  from binary_export_layout [OF h f] obtain bs where
    bs: "files (snd ?e) ''out.stl'' = Some (BinaryFile bs)" "length bs = 84 + 50 * er_triangles ?r"
      "take 80 bs = replicate 80 0" "le_value (take 4 (drop 80 bs)) = er_triangles ?r"
      "\<forall>k<er_triangles ?r. \<exists>n p0 p1 p2.
              take 12 (drop (84 + 50 * k) bs) = pack_3f n \<and>
              take 36 (drop (84 + 50 * k + 12) bs) = pack_3f p0 @ pack_3f p1 @ pack_3f p2 \<and>
              take 2 (drop (84 + 50 * k + 48) bs) = [0, 0]"
    by blast
  from bs(5) have "take 2 (drop 132 bs) = [0, 0]" by simp
  with bs(1-4) h f show ?thesis by simp
qed



text \<open>
  C9.  For a format string other than \<^verbatim>\<open>obj\<close>, \<^verbatim>\<open>export_mesh\<close> does what it does for
  \<^verbatim>\<open>stl\<close>, with the caller's string in the \<^verbatim>\<open>format\<close> field of the payload: the same
  storage results, the same exceptions and error payloads.  When it succeeds, the payload
  echoes the format string and the output file is the binary file: 80 zero bytes, the
  count, and 50 bytes for each reported triangle.
\<close>

theorem other_format_is_binary:
  assumes fmt: "fmt \<noteq> ''obj''"
  shows "export_mesh gf fs path ppath output fmt
           = (map_sum id (map_reply (er_format_update (\<lambda>_. fmt)))
                (fst (export_mesh gf fs path ppath output ''stl'')),
              snd (export_mesh gf fs path ppath output ''stl''))
       \<and> (\<forall>r fs'. export_mesh gf fs path ppath output fmt = (Inr (Success r), fs') \<longrightarrow>
             er_format r = fmt \<and>
             (\<exists>bs. files fs' output = Some (BinaryFile bs) \<and>
                   length bs = 84 + 50 * er_triangles r \<and>
                   take 80 bs = replicate 80 0 \<and>
                   le_value (take 4 (drop 80 bs)) = er_triangles r))"
proof (intro conjI allI impI)
  show "export_mesh gf fs path ppath output fmt
           = (map_sum id (map_reply (er_format_update (\<lambda>_. fmt)))
                (fst (export_mesh gf fs path ppath output ''stl'')),
              snd (export_mesh gf fs path ppath output ''stl''))"
    by (rule export_mesh_other_format [OF fmt])
next
  fix r fs'
  assume ok: "export_mesh gf fs path ppath output fmt = (Inr (Success r), fs')"
  from export_binary_file [OF ok fmt] obtain rs where
    rs: "length rs = er_triangles r" "er_triangles r < 2 ^ 32"
      "\<forall>x\<in>set rs. \<exists>p0 p1 p2. x = pack_3f (stl_normal gf p0 p1 p2) @ pack_3f p0
                                        @ pack_3f p1 @ pack_3f p2 @ [0, 0]"
      "files fs' output
         = Some (BinaryFile (replicate 80 0 @ le32 (of_nat (er_triangles r)) @ concat rs))"
      "er_format r = fmt"
    by blast
  show "er_format r = fmt" by (rule rs(5))
  let ?bs = "replicate 80 (0::byte) @ le32 (of_nat (er_triangles r)) @ concat rs"
  have len50: "length x = 50" if "x \<in> set rs" for x
    using rs(3) that by auto
  have "length (concat rs) = 50 * length rs"
    by (rule length_concat_blocks) (rule len50)
  then have len: "length ?bs = 84 + 50 * er_triangles r"
    using rs(1) by simp
  have hdr: "take 80 ?bs = replicate 80 0" by simp
  have cnt: "le_value (take 4 (drop 80 ?bs)) = er_triangles r"
    using rs(2) by (simp add: le_value_le32 unat_of_nat32)
  from rs(4) len hdr cnt
  show "\<exists>bs. files fs' output = Some (BinaryFile bs) \<and>
                   length bs = 84 + 50 * er_triangles r \<and>
                   take 80 bs = replicate 80 0 \<and>
                   le_value (take 4 (drop 80 bs)) = er_triangles r"
    by blast
qed

theorem other_format_is_binary_witness:
  "''xyz'' \<noteq> ''obj''
   \<and> fst (export_mesh toy_gf demo_fs ''product.usda'' ''/Product/Body'' ''out.bin'' ''xyz'')
       = Inr (Success \<lparr>er_output = ''out.bin'', er_format = ''xyz'', er_triangles = 2,
                        er_size_bytes = 184, er_status = ''ok''\<rparr>)
   \<and> (\<exists>bs. files (snd (export_mesh toy_gf demo_fs ''product.usda'' ''/Product/Body''
                          ''out.bin'' ''xyz'')) ''out.bin'' = Some (BinaryFile bs)
           \<and> length bs = 184 \<and> take 80 bs = replicate 80 0
           \<and> le_value (take 4 (drop 80 bs)) = 2)"
proof -
  let ?e = "export_mesh toy_gf demo_fs ''product.usda'' ''/Product/Body'' ''out.bin'' ''xyz''"
  let ?r = "\<lparr>er_output = ''out.bin'', er_format = ''xyz'', er_triangles = 2,
                        er_size_bytes = 184, er_status = ''ok''\<rparr>"
  have f: "''xyz'' \<noteq> ''obj''" by simp
  have h: "?e = (Inr (Success ?r), snd ?e)"
    using quad_export by (simp add: prod_eq_iff)
  from other_format_is_binary [OF f, of toy_gf demo_fs "''product.usda''" "''/Product/Body''"
      "''out.bin''"]
  have "\<forall>r fs'. ?e = (Inr (Success r), fs') \<longrightarrow>
             er_format r = ''xyz'' \<and>
             (\<exists>bs. files fs' ''out.bin'' = Some (BinaryFile bs) \<and>
                   length bs = 84 + 50 * er_triangles r \<and>
                   take 80 bs = replicate 80 0 \<and>
                   le_value (take 4 (drop 80 bs)) = er_triangles r)"
    by (rule conjunct2)
  with h have "\<exists>bs. files (snd ?e) ''out.bin'' = Some (BinaryFile bs) \<and>
                   length bs = 84 + 50 * er_triangles ?r \<and>
                   take 80 bs = replicate 80 0 \<and>
                   le_value (take 4 (drop 80 bs)) = er_triangles ?r"
    by blast
  then have "\<exists>bs. files (snd ?e) ''out.bin'' = Some (BinaryFile bs)
           \<and> length bs = 184 \<and> take 80 bs = replicate 80 0
           \<and> le_value (take 4 (drop 80 bs)) = 2"
    by simp
  with f quad_export show ?thesis by blast
qed

text \<open>
  C10.  When \<^verbatim>\<open>export_mesh\<close> returns an error payload, the storage after the call is the
  storage before it, so the content at the output path is what it was.  The payload is
  one of the two the validation makes.
\<close>

theorem export_error_no_write:
  assumes "export_mesh gf fs path ppath output fmt = (Inr (ErrorPayload msg), fs')"
  shows "fs' = fs \<and> files fs' output = files fs output \<and>
         (msg = ''Not a valid mesh prim: '' @ ppath \<or> msg = ''Mesh has no geometry data'')"
proof -
  have w: "write_mesh gf fs ppath output fmt pts tris \<noteq> (Inr (ErrorPayload msg), fs')" for pts tris
    by (auto simp: write_mesh_def export_ok_def Let_def split: prod.splits option.splits)
  from assms w show ?thesis
    by (auto simp: export_mesh_def Let_def split: sum.splits option.splits if_splits)
qed

theorem export_error_no_write_witness:
  "export_mesh toy_gf demo_fs ''product.usda'' ''/Product'' ''product.usda'' ''stl''
     = (Inr (ErrorPayload ''Not a valid mesh prim: /Product''),
        snd (export_mesh toy_gf demo_fs ''product.usda'' ''/Product'' ''product.usda'' ''stl''))
   \<and> snd (export_mesh toy_gf demo_fs ''product.usda'' ''/Product'' ''product.usda'' ''stl'')
       = demo_fs
   \<and> files (snd (export_mesh toy_gf demo_fs ''product.usda'' ''/Product'' ''product.usda''
                  ''stl'')) ''product.usda'' = Some (UsdFile demo_stage)"
proof -
  let ?e = "export_mesh toy_gf demo_fs ''product.usda'' ''/Product'' ''product.usda'' ''stl''"
  have h: "?e = (Inr (ErrorPayload ''Not a valid mesh prim: /Product''), snd ?e)"
    by (simp add: product_export)
  from export_error_no_write [OF h] have e: "snd ?e = demo_fs" by (rule conjunct1)
  have "files demo_fs ''product.usda'' = Some (UsdFile demo_stage)"
    by (simp add: demo_fs_def)
  with h e show ?thesis by simp
qed

section \<open>Claims about the triangulation\<close>

text \<open>
  C3.  Let the faces of a mesh be the lists \<open>faces\<close> of vertex indices, each of at least
  three: the face-vertex counts are their lengths and the face-vertex indices are their
  concatenation.  Then the triangulation of \<^verbatim>\<open>export_mesh\<close> returns, face after face, the
  fan of each face \<open>[v0, \<dots>, v(n-1)]\<close>: the \<open>n - 2\<close> triangles \<open>(v0, v(j+1), v(j+2))\<close> for
  \<open>j = 0, \<dots>, n - 3\<close>, in that order; and a successful export reports the sum of
  \<open>count - 2\<close> over the faces as its triangle count.
\<close>

theorem fan_triangulation:
  assumes ok: "export_mesh gf fs path ppath output fmt = (Inr (Success r), fs')"
    and st: "open_stage fs path = Inr st"
    and prim: "GetPrimAtPath st ppath = Some prim"
    and counts: "face_vertex_counts_attr (data prim) = Some (map (\<lambda>f. int (length f)) faces)"
    and indices: "face_vertex_indices_attr (data prim) = Some (concat faces)"
    and ge3: "\<forall>f\<in>set faces. 3 \<le> length f"
  shows "triangulate (concat faces) (map (\<lambda>f. int (length f)) faces) 0
           = Inr (concat (map fan_of faces))
       \<and> (\<forall>f\<in>set faces. length (fan_of f) = length f - 2 \<and>
             (\<forall>j<length f - 2. fan_of f ! j = (f ! 0, f ! (j + 1), f ! (j + 2))))
       \<and> int (er_triangles r) = (\<Sum>f\<leftarrow>faces. int (length f) - 2)"
proof -
  have tri: "triangulate (concat faces) (map (\<lambda>f. int (length f)) faces) 0
           = Inr (concat (map fan_of faces))"
    using triangulate_faces [of "[]" faces "[]"] by simp
  have fan: "length (fan_of f) = length f - 2 \<and>
             (\<forall>j<length f - 2. fan_of f ! j = (f ! 0, f ! (j + 1), f ! (j + 2)))" for f
  proof (intro conjI allI impI)
    show "length (fan_of f) = length f - 2" by (rule length_fan_of)
  next
    fix j
    assume j: "j < length f - 2"
    then have "1 + j < length f - 1" by simp
    then have "[1..<length f - 1] ! j = 1 + j" by (rule nth_upt)
    with j show "fan_of f ! j = (f ! 0, f ! (j + 1), f ! (j + 2))"
      by (simp add: fan_of_def)
  qed
  from export_mesh_success [OF ok] obtain pts tris where
    t: "triangulate (concat faces) (map (\<lambda>f. int (length f)) faces) 0 = Inr tris"
    and w: "write_mesh gf fs ppath output fmt pts tris = (Inr (Success r), fs')"
    using st prim counts indices by auto
  have "er_triangles r = length (concat (map fan_of faces))"
    using write_mesh_triangles [OF w] t tri by simp
  also have "int \<dots> = (\<Sum>f\<leftarrow>faces. int (length f) - 2)"
    using ge3 by (induction faces) (simp_all add: length_fan_of)
  finally show ?thesis using tri fan by simp
qed

theorem fan_triangulation_witness:
  "export_mesh toy_gf demo_fs ''product.usda'' ''/Product/Body'' ''out.bin'' ''xyz''
     = (Inr (Success \<lparr>er_output = ''out.bin'', er_format = ''xyz'', er_triangles = 2,
                       er_size_bytes = 184, er_status = ''ok''\<rparr>),
        snd (export_mesh toy_gf demo_fs ''product.usda'' ''/Product/Body'' ''out.bin'' ''xyz''))
   \<and> open_stage demo_fs ''product.usda'' = Inr demo_stage
   \<and> GetPrimAtPath demo_stage ''/Product/Body'' = Some demo_quad
   \<and> face_vertex_counts_attr (data demo_quad) = Some (map (\<lambda>f. int (length f)) [[0, 1, 2, 3]])
   \<and> face_vertex_indices_attr (data demo_quad) = Some (concat [[0, 1, 2, 3]])
   \<and> 3 \<le> length [0, 1, 2, 3 :: int]
   \<and> triangulate [0, 1, 2, 3] [4] 0 = Inr [(0, 1, 2), (0, 2, 3)]
   \<and> fan_of [0, 1, 2, 3] = [(0, 1, 2), (0, 2, 3)]
   \<and> int (er_triangles \<lparr>er_output = ''out.bin'', er_format = ''xyz'', er_triangles = 2,
                            er_size_bytes = 184, er_status = ''ok''\<rparr>)
       = (\<Sum>f\<leftarrow>[[0, 1, 2, 3 :: int]]. int (length f) - 2)"
proof -
  let ?e = "export_mesh toy_gf demo_fs ''product.usda'' ''/Product/Body'' ''out.bin'' ''xyz''"
  let ?r = "\<lparr>er_output = ''out.bin'', er_format = ''xyz'', er_triangles = 2,
                        er_size_bytes = 184, er_status = ''ok''\<rparr>"
  let ?faces = "[[0, 1, 2, 3 :: int]]"
  have h: "?e = (Inr (Success ?r), snd ?e)"
    using quad_export by (simp add: prod_eq_iff)
  have c: "face_vertex_counts_attr (data demo_quad) = Some (map (\<lambda>f. int (length f)) ?faces)"
    by (simp add: demo_quad_def plain_prim_def)
  have i: "face_vertex_indices_attr (data demo_quad) = Some (concat ?faces)"
    by (simp add: demo_quad_def plain_prim_def)
  have g: "\<forall>f\<in>set ?faces. 3 \<le> length f" by simp
  note t = fan_triangulation [OF h demo_open demo_find_quad c i g]
  from t have t1: "triangulate [0, 1, 2, 3] [4] 0 = Inr (fan_of [0, 1, 2, 3])"
    by (simp del: triangulate.simps)
  from t have "fan_of [0, 1, 2, 3 :: int] ! 0 = (0, 1, 2) \<and> fan_of [0, 1, 2, 3 :: int] ! 1 = (0, 2, 3)
      \<and> length (fan_of [0, 1, 2, 3 :: int]) = 2"
    by simp
  then have t2: "fan_of [0, 1, 2, 3 :: int] = [(0, 1, 2), (0, 2, 3)]"
    by (auto simp: list_eq_iff_nth_eq less_Suc_eq numeral_2_eq_2)
  from h demo_open demo_find_quad c i g t1 t2 show ?thesis by simp
qed

section \<open>Claims about the scene queries\<close>

text \<open>
  C6, as amended.  For every document, the number of nodes in the nested output of
  \<^verbatim>\<open>inspect_scene\<close> equals the \<^verbatim>\<open>prim_count\<close> of \<^verbatim>\<open>scene_stats\<close>: the traversal that
  \<^verbatim>\<open>scene_stats\<close> counts does not visit the pseudo-root, so nothing is subtracted for it.
  (When the document does not open, both raise the same exception.)
\<close>

theorem walker_count_is_prim_count:
  "walker_node_count fs path = stats_prim_count fs path"
proof (cases "open_stage fs path")
  case (Inl e)
  then show ?thesis
    by (simp add: walker_node_count_def stats_prim_count_def inspect_scene_def scene_stats_def)
next
  case (Inr st)
  then show ?thesis
    by (simp add: walker_node_count_open stats_prim_count_open)
qed

text \<open>
  The claim as stated, with one subtracted for the root, fails on the example document:
  four nodes in the nested output, a \<^verbatim>\<open>prim_count\<close> of four.
\<close>

theorem walker_count_counterexample:
  "walker_node_count demo_fs ''product.usda'' = Inr 4
   \<and> stats_prim_count demo_fs ''product.usda'' = Inr 4
   \<and> walker_node_count demo_fs ''product.usda'' \<noteq> Inr (4 - 1)"
  by (simp add: walker_node_count_open [OF demo_open] stats_prim_count_open [OF demo_open]
      demo_traverse)

text \<open>
  C5, as amended.  For every Material prim of an opened document whose surface output has
  no connected source, \<^verbatim>\<open>get_materials\<close> succeeds and reports the material with its path
  alone: the entry has no \<^verbatim>\<open>shader\<close> and no \<^verbatim>\<open>params\<close> key.
\<close>

theorem bare_material_entry:
  assumes st: "open_stage fs path = Inr st"
    and p: "p \<in> set (Traverse st)"
    and mat: "IsA p Material"
    and bare: "surface_sources (data p) = []"
  shows "\<exists>ms. get_materials fs path = Inr ms \<and>
              \<lparr>mi_path = prim_path (data p), mi_shader = None, mi_params = None\<rparr> \<in> set ms"
proof -
  have e: "material_entry p = \<lparr>mi_path = prim_path (data p), mi_shader = None, mi_params = None\<rparr>"
    by (simp add: material_entry_def bare)
  have "material_entry p \<in> set (map material_entry (filter (\<lambda>p. IsA p Material) (Traverse st)))"
    using p mat by simp
  then show ?thesis
    unfolding e by (simp add: get_materials_def st)
qed

theorem bare_material_entry_witness:
  "open_stage demo_fs ''product.usda'' = Inr demo_stage
   \<and> demo_material \<in> set (Traverse demo_stage) \<and> IsA demo_material Material
   \<and> surface_sources (data demo_material) = []
   \<and> (\<exists>ms. get_materials demo_fs ''product.usda'' = Inr ms \<and>
            \<lparr>mi_path = ''/Product/Bare'', mi_shader = None, mi_params = None\<rparr> \<in> set ms)"
proof -
  have p: "demo_material \<in> set (Traverse demo_stage)" by (simp add: demo_traverse)
  have m: "IsA demo_material Material" by (simp add: IsA_def demo_material_def plain_prim_def)
  have b: "surface_sources (data demo_material) = []"
    by (simp add: demo_material_def plain_prim_def)
  have n: "prim_path (data demo_material) = ''/Product/Bare''"
    by (simp add: demo_material_def plain_prim_def)
  from bare_material_entry [OF demo_open p m b] demo_open p m b show ?thesis
    unfolding n by blast
qed

text \<open>
  The claim as stated asks for an empty parameter set in the entry.  On the example
  document the entry of the material without a shader has no parameter set at all.
\<close>

theorem bare_material_counterexample:
  "demo_material \<in> set (Traverse demo_stage) \<and> IsA demo_material Material
   \<and> surface_sources (data demo_material) = []
   \<and> get_materials demo_fs ''product.usda''
       = Inr [\<lparr>mi_path = ''/Product/Bare'', mi_shader = None, mi_params = None\<rparr>]
   \<and> get_materials demo_fs ''product.usda''
       \<noteq> Inr [\<lparr>mi_path = ''/Product/Bare'', mi_shader = None, mi_params = Some []\<rparr>]"
  by (simp add: demo_materials demo_traverse IsA_def) (simp add: demo_material_def plain_prim_def)

text \<open>
  C4, as amended.  On a document that opens, \<^verbatim>\<open>get_transforms\<close> with an explicit, non-empty
  prim path that does not resolve returns the success payload with an empty list of
  transforms: the prim that is not valid is skipped.
\<close>

theorem get_transforms_unresolved:
  assumes st: "open_stage fs path = Inr st"
    and none: "GetPrimAtPath st p = None"
    and given: "p \<noteq> []"
  shows "get_transforms fs path (Some p) = Inr (Success [])"
  by (simp add: get_transforms_def st selected_prims_def given none)

theorem get_transforms_unresolved_witness:
  "open_stage demo_fs ''product.usda'' = Inr demo_stage
   \<and> GetPrimAtPath demo_stage ''/Missing'' = None
   \<and> ''/Missing'' \<noteq> []
   \<and> get_transforms demo_fs ''product.usda'' (Some ''/Missing'') = Inr (Success [])"
proof -
  have n: "GetPrimAtPath demo_stage ''/Missing'' = None"
    by (simp add: GetPrimAtPath_def demo_stage_def demo_product_def demo_quad_def
        demo_sliver_def demo_material_def plain_prim_def)
  have g: "''/Missing'' \<noteq> []" by simp
  from get_transforms_unresolved [OF demo_open n g] demo_open n g show ?thesis by blast
qed

text \<open>
  The claim as stated asks for an error payload.  On the example document a path that
  does not resolve gives the success payload.
\<close>

theorem get_transforms_counterexample:
  "GetPrimAtPath demo_stage ''/Nope'' = None
   \<and> get_transforms demo_fs ''product.usda'' (Some ''/Nope'') = Inr (Success [])
   \<and> get_transforms demo_fs ''product.usda'' (Some ''/Nope'')
       \<noteq> Inr (ErrorPayload ''Prim not found: /Nope'')"
  by (simp add: demo_find_nope get_transforms_def demo_open selected_prims_def)

section \<open>Claims about the variants\<close>

text \<open>
  C7.  On a document that opens, \<^verbatim>\<open>set_variant\<close> validates in this order.  A prim path that
  does not resolve gives the error payload \<^verbatim>\<open>Prim not found\<close>.  A prim without the named
  variant set gives \<^verbatim>\<open>Variant set not found\<close>.  A variant that is not among the names of the
  set gives \<^verbatim>\<open>Variant not found\<close>, and the message ends with the list of the set's variant
  names as Python prints it, so every valid name occurs in it.  Otherwise the reply is
  the success payload with the prim path, the set name and the variant just selected.
\<close>

theorem set_variant_validation:
  assumes st: "open_stage fs path = Inr st"
  shows "(GetPrimAtPath st ppath = None \<longrightarrow>
            fst (set_variant fs path ppath vset variant)
              = Inr (ErrorPayload (''Prim not found: '' @ ppath)))
       \<and> (\<forall>prim. GetPrimAtPath st ppath = Some prim \<longrightarrow>
            (\<not> HasVariantSet prim vset \<longrightarrow>
               fst (set_variant fs path ppath vset variant)
                 = Inr (ErrorPayload (''Variant set not found: '' @ vset)))
          \<and> (HasVariantSet prim vset \<and> variant \<notin> set (vs_names (GetVariantSet prim vset)) \<longrightarrow>
               fst (set_variant fs path ppath vset variant)
                 = Inr (ErrorPayload (''Variant not found: '' @ variant @ ''. Available: ''
                                      @ str_list (vs_names (GetVariantSet prim vset))))
               \<and> (\<forall>n\<in>set (vs_names (GetVariantSet prim vset)).
                     \<exists>a b. str_list (vs_names (GetVariantSet prim vset)) = a @ n @ b))
          \<and> (HasVariantSet prim vset \<and> variant \<in> set (vs_names (GetVariantSet prim vset)) \<longrightarrow>
               fst (set_variant fs path ppath vset variant)
                 = Inr (Success \<lparr>sv_path = ppath, sv_variant_set = vset, sv_selected = variant,
                                 sv_status = ''ok''\<rparr>)))"
  by (simp add: set_variant_def st set_variant_on_def str_list_contains)

theorem set_variant_validation_witness:
  "open_stage demo_fs ''product.usda'' = Inr demo_stage
   \<and> GetPrimAtPath demo_stage ''/Nope'' = None
   \<and> fst (set_variant demo_fs ''product.usda'' ''/Nope'' ''size'' ''large'')
       = Inr (ErrorPayload ''Prim not found: /Nope'')
   \<and> GetPrimAtPath demo_stage ''/Product'' = Some demo_product
   \<and> \<not> HasVariantSet demo_product ''color''
   \<and> fst (set_variant demo_fs ''product.usda'' ''/Product'' ''color'' ''red'')
       = Inr (ErrorPayload ''Variant set not found: color'')
   \<and> HasVariantSet demo_product ''size''
   \<and> ''huge'' \<notin> set (vs_names (GetVariantSet demo_product ''size''))
   \<and> fst (set_variant demo_fs ''product.usda'' ''/Product'' ''size'' ''huge'')
       = Inr (ErrorPayload (''Variant not found: huge. Available: ''
                            @ str_list [''small'', ''medium'', ''large'']))
   \<and> ''large'' \<in> set (vs_names (GetVariantSet demo_product ''size''))
   \<and> fst (set_variant demo_fs ''product.usda'' ''/Product'' ''size'' ''large'')
       = Inr (Success \<lparr>sv_path = ''/Product'', sv_variant_set = ''size'',
                       sv_selected = ''large'', sv_status = ''ok''\<rparr>)"
proof -
  note v = set_variant_validation [OF demo_open]
  have a: "fst (set_variant demo_fs ''product.usda'' ''/Nope'' ''size'' ''large'')
       = Inr (ErrorPayload ''Prim not found: /Nope'')"
    using v [of "''/Nope''" "''size''" "''large''"] demo_find_nope by simp
  have b: "fst (set_variant demo_fs ''product.usda'' ''/Product'' ''color'' ''red'')
       = Inr (ErrorPayload ''Variant set not found: color'')"
    using v [of "''/Product''" "''color''" "''red''"] demo_find_product demo_has_no_color by simp
  have c: "fst (set_variant demo_fs ''product.usda'' ''/Product'' ''size'' ''huge'')
       = Inr (ErrorPayload (''Variant not found: huge. Available: ''
                            @ str_list [''small'', ''medium'', ''large'']))"
    using v [of "''/Product''" "''size''" "''huge''"] demo_find_product demo_has_size
    by (simp add: demo_size_names)
  have d: "fst (set_variant demo_fs ''product.usda'' ''/Product'' ''size'' ''large'')
       = Inr (Success \<lparr>sv_path = ''/Product'', sv_variant_set = ''size'',
                       sv_selected = ''large'', sv_status = ''ok''\<rparr>)"
    using v [of "''/Product''" "''size''" "''large''"] demo_find_product demo_has_size
    by (simp add: demo_size_names)
  show ?thesis
    using a b c d demo_open demo_find_nope demo_find_product demo_has_size demo_has_no_color
    by (simp add: demo_size_names)
qed

text \<open>
  C1 does not hold of the code.  On the example document, selecting \<^verbatim>\<open>large\<close> in the set
  \<^verbatim>\<open>size\<close> of \<^verbatim>\<open>/Product\<close> succeeds, the storage after the call is the storage before it,
  and \<^verbatim>\<open>list_variants\<close> on the same path still reports \<^verbatim>\<open>medium\<close>: the selection was made
  on the stage in memory and never saved.
\<close>

theorem set_variant_not_saved:
  "fst (set_variant demo_fs ''product.usda'' ''/Product'' ''size'' ''large'')
     = Inr (Success \<lparr>sv_path = ''/Product'', sv_variant_set = ''size'',
                     sv_selected = ''large'', sv_status = ''ok''\<rparr>)
   \<and> snd (set_variant demo_fs ''product.usda'' ''/Product'' ''size'' ''large'') = demo_fs
   \<and> list_variants (snd (set_variant demo_fs ''product.usda'' ''/Product'' ''size'' ''large''))
        ''product.usda''
       = Inr [\<lparr>pv_path = ''/Product'',
               pv_variant_sets = [\<lparr>vi_name = ''size'',
                                   vi_options = [''small'', ''medium'', ''large''],
                                   vi_selected = ''medium''\<rparr>]\<rparr>]"
  by (simp add: set_variant_storage demo_variants)
     (simp add: set_variant_def demo_open set_variant_on_def demo_find_product demo_has_size
        demo_size_names)

end
